theory Spec2Isabelle
  imports Main "HOL-Library.Sublist"
begin

section \<open>Strings, truthiness and errors of the host language\<close>

text \<open>
  The extension is TypeScript. Its strings are modelled as \<open>string\<close>, one \<open>char\<close> per
  code unit, which covers the code units U+0000 to U+00FF. \<open>String.prototype.trim\<close>
  removes white space and line terminators from both ends; in that range these are
  TAB, LF, VT, FF, CR, SPACE and NO-BREAK SPACE.
\<close>

definition isWhiteSpace :: "char \<Rightarrow> bool" where
  "isWhiteSpace c \<longleftrightarrow>
     c = CHR 0x09 \<or> c = CHR 0x0A \<or> c = CHR 0x0B \<or> c = CHR 0x0C \<or> c = CHR 0x0D
     \<or> c = CHR 0x20 \<or> c = CHR 0xA0"

definition trim :: "string \<Rightarrow> string" where
  "trim s = rev (dropWhile isWhiteSpace (rev (dropWhile isWhiteSpace s)))"

text \<open>\<open>Array.prototype.join\<close> on an array of strings.\<close>

fun join :: "string \<Rightarrow> string list \<Rightarrow> string" where
  "join sep [] = []"
| "join sep [x] = x"
| "join sep (x # y # ys) = x @ sep @ join sep (y # ys)"

text \<open>
  \<open>a || b\<close> yields \<open>b\<close> when \<open>a\<close> is falsy. A value read from the configuration is
  \<open>undefined\<close> (\<open>None\<close>) when the option is absent. Of the values of the declared
  types, \<open>undefined\<close>, the empty string and the number zero are falsy; every array is
  truthy, the empty one too.
\<close>

definition truthyString :: "string option \<Rightarrow> bool" where
  "truthyString v = (case v of None \<Rightarrow> False | Some s \<Rightarrow> s \<noteq> [])"

definition orString :: "string option \<Rightarrow> string \<Rightarrow> string" where
  "orString v d = (case v of None \<Rightarrow> d | Some s \<Rightarrow> if s \<noteq> [] then s else d)"

definition orNumber :: "int option \<Rightarrow> int \<Rightarrow> int" where
  "orNumber v d = (case v of None \<Rightarrow> d | Some n \<Rightarrow> if n \<noteq> 0 then n else d)"

definition orArray :: "'a list option \<Rightarrow> 'a list \<Rightarrow> 'a list" where
  "orArray v d = (case v of None \<Rightarrow> d | Some xs \<Rightarrow> xs)"

definition orPath :: "string option \<Rightarrow> string option \<Rightarrow> string option" where
  "orPath v d = (case v of None \<Rightarrow> d | Some s \<Rightarrow> if s \<noteq> [] then Some s else d)"

datatype js_error = Error (message: string)

section \<open>Data of the extension\<close>

text \<open>
  The options of the section \<open>claude-code-ai-commit-message-button\<close>: the field
  \<open>get_key\<close> is what \<open>config.get<T>('key')\<close> returns, a value of the declared type or
  \<open>undefined\<close>.
\<close>

record configuration =
  get_baseUrl :: "string option"
  get_authToken :: "string option"
  get_model :: "string option"
  get_maxTokens :: "int option"
  get_customRules :: "string list option"
  get_commitFormat :: "string option"
  get_customTemplate :: "string option"

text \<open>The object \<open>anthropicConfig\<close> handed to the API client; a field not assigned is absent.\<close>

record client_options =
  opt_baseURL :: "string option"
  opt_authToken :: "string option"

record message_param =
  role :: string
  content :: string

record system_block =
  sys_type :: string
  sys_text :: string
  cache_control :: string

record request =
  req_model :: string
  max_tokens :: int
  messages :: "message_param list"
  system :: "system_block list"

record content_block =
  block_type :: string
  block_text :: string

record response =
  resp_content :: "content_block list"

record exec_result =
  stdout :: string
  stderr :: string

text \<open>
  The collaborators: the editor's configuration and first workspace folder, the
  promisified \<open>exec\<close> (command and \<open>cwd\<close> option), and \<open>messages.create\<close> of the client
  built from the client options. Each call either returns or throws.
\<close>

record host =
  getConfiguration :: "js_error + configuration"
  workspaceFolder :: "string option"
  execAsync :: "string \<Rightarrow> string option \<Rightarrow> js_error + exec_result"
  messages_create :: "client_options \<Rightarrow> request \<Rightarrow> js_error + response"

text \<open>What a run did to the outside world, in order.\<close>

datatype event =
  Exec string "string option"
| Create client_options request

section \<open>getFormatRules\<close>

definition getFormatRules :: "string \<Rightarrow> string \<Rightarrow> string" where
  "getFormatRules commitFormat customTemplate =
     (if commitFormat = ''conventional'' then
        ''Rules:\<newline>- Use conventional commit format\<newline>- Keep under 72 characters for the first line\<newline>- Be specific and clear\<newline>- Common types: feat, fix, docs, style, refactor, test, chore''
      else if commitFormat = ''angular'' then
        ''Rules:\<newline>- Use Angular commit format: <type>(<scope>): <description>\<newline>- Types: build, ci, docs, feat, fix, perf, refactor, style, test\<newline>- Keep under 100 characters for the first line\<newline>- Use imperative mood''
      else if commitFormat = ''custom'' then
        (if customTemplate \<noteq> [] then
           ''Rules:\<newline>- Follow this custom template: '' @ customTemplate @ ''\<newline>- Be specific and clear''
         else
           ''Rules:\<newline>- Use conventional commit format\<newline>- Keep under 72 characters for the first line\<newline>- Be specific and clear'')
      else
        ''Rules:\<newline>- Use conventional commit format\<newline>- Keep under 72 characters for the first line\<newline>- Be specific and clear\<newline>- Common types: feat, fix, docs, style, refactor, test, chore'')"

section \<open>The constructor\<close>

text \<open>
  The constructor reads the configuration and copies \<open>baseUrl\<close> and \<open>authToken\<close> into
  the client options when they are truthy. The generator object holds the client, which
  the model identifies with its options.
\<close>

definition anthropicConfig :: "configuration \<Rightarrow> client_options" where
  "anthropicConfig config =
     \<lparr>opt_baseURL = (if truthyString (get_baseUrl config) then get_baseUrl config else None),
      opt_authToken = (if truthyString (get_authToken config) then get_authToken config else None)\<rparr>"

definition constructor :: "host \<Rightarrow> js_error + client_options" where
  "constructor h =
     (case getConfiguration h of
        Inl e \<Rightarrow> Inl e
      | Inr config \<Rightarrow> Inr (anthropicConfig config))"

section \<open>generateCommitMessage\<close>

text \<open>
  The diff-collection step of \<open>generateCommitMessage\<close>: the staged diff, the unstaged
  one when the staged one is blank, and the error when the chosen one is blank. It
  returns the commands run and either the error thrown or \<open>diff\<close> and \<open>isStaged\<close>.
\<close>

definition fetchDiff :: "host \<Rightarrow> string option \<Rightarrow> event list \<times> (js_error + string \<times> bool)" where
  "fetchDiff h cwd =
     (case execAsync h ''git diff --cached'' cwd of
        Inl e \<Rightarrow> ([Exec ''git diff --cached'' cwd], Inl e)
      | Inr r \<Rightarrow>
          (case (if trim (stdout r) = [] then
                   (case execAsync h ''git diff'' cwd of
                      Inl e \<Rightarrow> ([Exec ''git diff --cached'' cwd, Exec ''git diff'' cwd], Inl e)
                    | Inr result \<Rightarrow>
                        ([Exec ''git diff --cached'' cwd, Exec ''git diff'' cwd],
                         Inr (stdout result, False)))
                 else ([Exec ''git diff --cached'' cwd], Inr (stdout r, True))) of
             (tr, Inl e) \<Rightarrow> (tr, Inl e)
           | (tr, Inr (diff, isStaged)) \<Rightarrow>
               if trim diff = [] then (tr, Inl (Error ''No changes found (staged or unstaged)''))
               else (tr, Inr (diff, isStaged))))"

definition customRulesText :: "string list \<Rightarrow> string" where
  "customRulesText customRules =
     (if length customRules > 0 then
        ''\<newline>\<newline>Additional custom rules:\<newline>'' @ join ''\<newline>'' (map (\<lambda>rule. ''- '' @ rule) customRules)
      else [])"

text \<open>The template literal of the user message.\<close>

definition userContent :: "string \<Rightarrow> string \<Rightarrow> string \<Rightarrow> string \<Rightarrow> string" where
  "userContent fileType diff formatRules rulesText =
     ''write me a commit message for the '' @ fileType @ '', do not commit\<newline>\<newline>Git diff:\<newline>''
     @ diff @ ''\<newline>\<newline>'' @ formatRules @ rulesText
     @ ''\<newline>- Do not wrap the response in code blocks or backticks\<newline>- Return plain text only''"

definition systemPreamble :: "system_block list" where
  "systemPreamble =
     [\<lparr>sys_type = ''text'',
       sys_text = ''You are Claude Code, Anthropic's official CLI for Claude.'',
       cache_control = ''ephemeral''\<rparr>,
      \<lparr>sys_type = ''text'',
       sys_text = ''\<newline>You are an interactive CLI tool that helps users with software engineering tasks.'',
       cache_control = ''ephemeral''\<rparr>]"

text \<open>The argument of \<open>messages.create\<close>, from the configuration read and the diff chosen.\<close>

definition buildRequest :: "configuration \<Rightarrow> string \<Rightarrow> bool \<Rightarrow> request" where
  "buildRequest config diff isStaged =
     (let model = orString (get_model config) ''claude-4-sonnet'';
          maxTokens = orNumber (get_maxTokens config) 200;
          customRules = orArray (get_customRules config) [];
          commitFormat = orString (get_commitFormat config) ''conventional'';
          customTemplate = orString (get_customTemplate config) [];
          fileType = (if isStaged then ''staged files'' else ''changed files'');
          formatRules = getFormatRules commitFormat customTemplate;
          rulesText = customRulesText customRules
      in \<lparr>req_model = model,
          max_tokens = maxTokens,
          messages = [\<lparr>role = ''user'', content = userContent fileType diff formatRules rulesText\<rparr>],
          system = systemPreamble\<rparr>)"

definition extractText :: "response \<Rightarrow> string" where
  "extractText resp =
     (case find (\<lambda>block. block_type block = ''text'') (resp_content resp) of
        Some textContent \<Rightarrow> block_text textContent
      | None \<Rightarrow> ''Unable to generate commit message'')"

text \<open>The body of the \<open>try\<close> block.\<close>

definition tryBody :: "host \<Rightarrow> client_options \<Rightarrow> string option \<Rightarrow> event list \<times> (js_error + string)" where
  "tryBody h this repositoryPath =
     (case getConfiguration h of
        Inl e \<Rightarrow> ([], Inl e)
      | Inr config \<Rightarrow>
          (let cwd = orPath repositoryPath (workspaceFolder h) in
           case fetchDiff h cwd of
             (tr, Inl e) \<Rightarrow> (tr, Inl e)
           | (tr, Inr (diff, isStaged)) \<Rightarrow>
               (let req = buildRequest config diff isStaged in
                case messages_create h this req of
                  Inl e \<Rightarrow> (tr @ [Create this req], Inl e)
                | Inr resp \<Rightarrow> (tr @ [Create this req], Inr (extractText resp)))))"

definition generateCommitMessage ::
    "host \<Rightarrow> client_options \<Rightarrow> string option \<Rightarrow> event list \<times> (js_error + string)" where
  "generateCommitMessage h this repositoryPath =
     (case tryBody h this repositoryPath of
        (tr, Inl error) \<Rightarrow> (tr, Inl (Error (''Failed to generate commit message: '' @ message error)))
      | (tr, Inr commitMessage) \<Rightarrow> (tr, Inr commitMessage))"

section \<open>Notions of the specification and sample collaborators\<close>

text \<open>The first line of a text: everything before its first line feed.\<close>

definition firstLine :: "string \<Rightarrow> string" where
  "firstLine s = takeWhile (\<lambda>c. c \<noteq> CHR 0x0A) s"

text \<open>
  A host for concrete runs: the configuration read, the outcome of the staged-diff and
  of the unstaged-diff command, and the outcome of the completion request.
\<close>

definition testHost ::
    "js_error + configuration \<Rightarrow> js_error + string \<Rightarrow> js_error + string \<Rightarrow> js_error + response \<Rightarrow> host" where
  "testHost cfg staged unstaged api =
     \<lparr>getConfiguration = cfg,
      workspaceFolder = Some ''/repo'',
      execAsync = (\<lambda>cmd cwd.
        if cmd = ''git diff --cached'' then map_sum id (\<lambda>s. \<lparr>stdout = s, stderr = []\<rparr>) staged
        else if cmd = ''git diff'' then map_sum id (\<lambda>s. \<lparr>stdout = s, stderr = []\<rparr>) unstaged
        else Inl (Error ''Command failed'')),
      messages_create = (\<lambda>opts req. api)\<rparr>"

text \<open>The configuration with no option set.\<close>

definition defaultConfig :: configuration where
  "defaultConfig =
     \<lparr>get_baseUrl = None, get_authToken = None, get_model = None, get_maxTokens = None,
      get_customRules = None, get_commitFormat = None, get_customTemplate = None\<rparr>"

text \<open>
  Sample responses and hosts: a reply whose first text block comes second, a reply
  without a text block, and diffs with white space around them.
\<close>

definition sampleResponse :: response where
  "sampleResponse =
     \<lparr>resp_content =
        [\<lparr>block_type = ''thinking'', block_text = ''hm''\<rparr>,
         \<lparr>block_type = ''text'', block_text = ''feat: add foo''\<rparr>,
         \<lparr>block_type = ''text'', block_text = ''second''\<rparr>]\<rparr>"

definition toolOnlyResponse :: response where
  "toolOnlyResponse =
     \<lparr>resp_content = [\<lparr>block_type = ''tool_use'', block_text = ''ignored''\<rparr>]\<rparr>"

definition stagedHost :: host where
  "stagedHost = testHost (Inr defaultConfig) (Inr ''diff --git a/x b/x\<newline>+foo'') (Inr ''-bar'') (Inr sampleResponse)"

definition toolOnlyHost :: host where
  "toolOnlyHost = testHost (Inr defaultConfig) (Inr ''diff --git a/x b/x\<newline>+foo'') (Inr ''-bar'') (Inr toolOnlyResponse)"

definition paddedHost :: host where
  "paddedHost = testHost (Inr defaultConfig) (Inr ''\<newline>  diff --git a/x b/x\<newline>+foo\<newline>\<newline>'') (Inr ''-bar'') (Inr sampleResponse)"

definition paddedUnstagedHost :: host where
  "paddedUnstagedHost = testHost (Inr defaultConfig) (Inr '' \<newline>'') (Inr '' -bar\<newline>'') (Inr sampleResponse)"

section \<open>The steps of a run\<close>

lemma fetchDiff_staged:
  "execAsync h ''git diff --cached'' cwd = Inr s \<Longrightarrow> trim (stdout s) \<noteq> [] \<Longrightarrow>
   fetchDiff h cwd = ([Exec ''git diff --cached'' cwd], Inr (stdout s, True))"
  by (simp add: fetchDiff_def)

lemma fetchDiff_unstaged:
  "execAsync h ''git diff --cached'' cwd = Inr s \<Longrightarrow> trim (stdout s) = [] \<Longrightarrow>
   execAsync h ''git diff'' cwd = Inr u \<Longrightarrow> trim (stdout u) \<noteq> [] \<Longrightarrow>
   fetchDiff h cwd = ([Exec ''git diff --cached'' cwd, Exec ''git diff'' cwd], Inr (stdout u, False))"
  by (simp add: fetchDiff_def)

lemma fetchDiff_none:
  "execAsync h ''git diff --cached'' cwd = Inr s \<Longrightarrow> trim (stdout s) = [] \<Longrightarrow>
   execAsync h ''git diff'' cwd = Inr u \<Longrightarrow> trim (stdout u) = [] \<Longrightarrow>
   fetchDiff h cwd = ([Exec ''git diff --cached'' cwd, Exec ''git diff'' cwd],
                      Inl (Error ''No changes found (staged or unstaged)''))"
  by (simp add: fetchDiff_def)

lemma fetchDiff_staged_fails:
  "execAsync h ''git diff --cached'' cwd = Inl e \<Longrightarrow>
   fetchDiff h cwd = ([Exec ''git diff --cached'' cwd], Inl e)"
  by (simp add: fetchDiff_def)

lemma fetchDiff_unstaged_fails:
  "execAsync h ''git diff --cached'' cwd = Inr s \<Longrightarrow> trim (stdout s) = [] \<Longrightarrow>
   execAsync h ''git diff'' cwd = Inl e \<Longrightarrow>
   fetchDiff h cwd = ([Exec ''git diff --cached'' cwd, Exec ''git diff'' cwd], Inl e)"
  by (simp add: fetchDiff_def)

lemma generate_after_diff:
  "getConfiguration h = Inr config \<Longrightarrow>
   fetchDiff h (orPath rp (workspaceFolder h)) = (tr, Inr (diff, isStaged)) \<Longrightarrow>
   generateCommitMessage h this rp =
     (tr @ [Create this (buildRequest config diff isStaged)],
      case messages_create h this (buildRequest config diff isStaged) of
        Inl e \<Rightarrow> Inl (Error (''Failed to generate commit message: '' @ message e))
      | Inr resp \<Rightarrow> Inr (extractText resp))"
  by (simp add: generateCommitMessage_def tryBody_def Let_def split: sum.splits)

lemma generate_diff_fails:
  "getConfiguration h = Inr config \<Longrightarrow>
   fetchDiff h (orPath rp (workspaceFolder h)) = (tr, Inl e) \<Longrightarrow>
   generateCommitMessage h this rp =
     (tr, Inl (Error (''Failed to generate commit message: '' @ message e)))"
  by (simp add: generateCommitMessage_def tryBody_def Let_def)

lemma generate_config_fails:
  "getConfiguration h = Inl e \<Longrightarrow>
   generateCommitMessage h this rp =
     ([], Inl (Error (''Failed to generate commit message: '' @ message e)))"
  by (simp add: generateCommitMessage_def tryBody_def)

lemma generate_api_fails:
  "getConfiguration h = Inr config \<Longrightarrow>
   fetchDiff h (orPath rp (workspaceFolder h)) = (tr, Inr (diff, isStaged)) \<Longrightarrow>
   messages_create h this (buildRequest config diff isStaged) = Inl e \<Longrightarrow>
   snd (generateCommitMessage h this rp) =
     Inl (Error (''Failed to generate commit message: '' @ message e))"
  using generate_after_diff [of h config rp tr diff isStaged this] by simp

lemma fetchDiff_error_cases:
  "fetchDiff h cwd = (tr, Inl e) \<Longrightarrow>
   execAsync h ''git diff --cached'' cwd = Inl e \<or> execAsync h ''git diff'' cwd = Inl e
   \<or> e = Error ''No changes found (staged or unstaged)''"
  by (auto simp: fetchDiff_def split: sum.splits if_splits)

lemma generate_error_cases:
  assumes "snd (generateCommitMessage h this rp) = Inl e"
  shows "\<exists>e0. e = Error (''Failed to generate commit message: '' @ message e0)
    \<and> (getConfiguration h = Inl e0
       \<or> execAsync h ''git diff --cached'' (orPath rp (workspaceFolder h)) = Inl e0
       \<or> execAsync h ''git diff'' (orPath rp (workspaceFolder h)) = Inl e0
       \<or> e0 = Error ''No changes found (staged or unstaged)''
       \<or> (\<exists>req. messages_create h this req = Inl e0))"
proof (cases "getConfiguration h")
  case (Inl e0)
  then show ?thesis using assms generate_config_fails [OF Inl, of this rp] by auto
next
  case (Inr config)
  obtain tr r where f: "fetchDiff h (orPath rp (workspaceFolder h)) = (tr, r)"
    by (cases "fetchDiff h (orPath rp (workspaceFolder h))")
  show ?thesis
  proof (cases r)
    case (Inl e0)
    with f have f': "fetchDiff h (orPath rp (workspaceFolder h)) = (tr, Inl e0)" by simp
    from generate_diff_fails [OF Inr f', of this] assms
    have "e = Error (''Failed to generate commit message: '' @ message e0)" by simp
    with fetchDiff_error_cases [OF f'] show ?thesis by blast
  next
    case (Inr p)
    obtain diff isStaged where p: "p = (diff, isStaged)" by (cases p)
    with f Inr have f': "fetchDiff h (orPath rp (workspaceFolder h)) = (tr, Inr (diff, isStaged))"
      by simp
    show ?thesis
    proof (cases "messages_create h this (buildRequest config diff isStaged)")
      case (Inl e0)
      from generate_api_fails [OF \<open>getConfiguration h = Inr config\<close> f' Inl] assms
      have "e = Error (''Failed to generate commit message: '' @ message e0)" by simp
      with Inl show ?thesis by blast
    next
      case (Inr resp)
      with generate_after_diff [OF \<open>getConfiguration h = Inr config\<close> f', of this] assms
      show ?thesis by simp
    qed
  qed
qed

lemma join_lines:
  "join sep (x # xs) = x @ concat (map (\<lambda>l. sep @ l) xs)"
  by (induction xs arbitrary: x) simp_all

lemma customRulesText_lines:
  "rules \<noteq> [] \<Longrightarrow>
   customRulesText rules =
     concat (map (\<lambda>l. ''\<newline>'' @ l) ([[], ''Additional custom rules:''] @ map (\<lambda>r. ''- '' @ r) rules))"
  by (cases rules) (simp_all add: customRulesText_def join_lines comp_def)

lemma buildRequest_messages:
  "messages (buildRequest config diff isStaged) =
     [\<lparr>role = ''user'',
       content = userContent (if isStaged then ''staged files'' else ''changed files'') diff
         (getFormatRules (orString (get_commitFormat config) ''conventional'')
            (orString (get_customTemplate config) []))
         (customRulesText (orArray (get_customRules config) []))\<rparr>]"
  by (simp add: buildRequest_def Let_def)

lemma find_first:
  "\<forall>x\<in>set pre. \<not> P x \<Longrightarrow> P b \<Longrightarrow> find P (pre @ b # post) = Some b"
  by (induction pre) simp_all

lemma extractText_none:
  "\<forall>b\<in>set (resp_content resp). block_type b \<noteq> ''text'' \<Longrightarrow>
   extractText resp = ''Unable to generate commit message''"
proof -
  assume "\<forall>b\<in>set (resp_content resp). block_type b \<noteq> ''text''"
  then have "find (\<lambda>block. block_type block = ''text'') (resp_content resp) = None"
    by (simp add: find_None_iff)
  then show ?thesis by (simp add: extractText_def)
qed

lemma extractText_first:
  "resp_content resp = pre @ b # post \<Longrightarrow> \<forall>x\<in>set pre. block_type x \<noteq> ''text'' \<Longrightarrow>
   block_type b = ''text'' \<Longrightarrow> extractText resp = block_text b"
  by (simp add: extractText_def find_first)

lemma stagedHost_config: "getConfiguration stagedHost = Inr defaultConfig"
  by (simp add: stagedHost_def testHost_def)

lemma stagedHost_fetch:
  "fetchDiff stagedHost (orPath None (workspaceFolder stagedHost)) =
     ([Exec ''git diff --cached'' (Some ''/repo'')], Inr (''diff --git a/x b/x\<newline>+foo'', True))"
  by (simp add: stagedHost_def testHost_def fetchDiff_def orPath_def trim_def isWhiteSpace_def)

lemma stagedHost_create: "messages_create stagedHost this req = Inr sampleResponse"
  by (simp add: stagedHost_def testHost_def)

lemma toolOnlyHost_config: "getConfiguration toolOnlyHost = Inr defaultConfig"
  by (simp add: toolOnlyHost_def testHost_def)

lemma toolOnlyHost_fetch:
  "fetchDiff toolOnlyHost (orPath None (workspaceFolder toolOnlyHost)) =
     ([Exec ''git diff --cached'' (Some ''/repo'')], Inr (''diff --git a/x b/x\<newline>+foo'', True))"
  by (simp add: toolOnlyHost_def testHost_def fetchDiff_def orPath_def trim_def isWhiteSpace_def)

lemma toolOnlyHost_create: "messages_create toolOnlyHost this req = Inr toolOnlyResponse"
  by (simp add: toolOnlyHost_def testHost_def)

section \<open>Collecting the diff\<close>

text \<open>
  C1. For every working directory \<open>cwd\<close>: when the staged-diff command returns an output
  whose trimmed form is not empty, the step yields that output with \<open>isStaged = True\<close>
  and the unstaged-diff command is not run; when the staged output is blank and the
  unstaged-diff command returns an output whose trimmed form is not empty, the step
  yields that output with \<open>isStaged = False\<close>; when both are blank it throws the error
  with the message \<open>No changes found (staged or unstaged)\<close>.
\<close>

theorem fetchDiff_selects:
  "(\<forall>s. execAsync h ''git diff --cached'' cwd = Inr s \<longrightarrow> trim (stdout s) \<noteq> [] \<longrightarrow>
        fetchDiff h cwd = ([Exec ''git diff --cached'' cwd], Inr (stdout s, True))
        \<and> Exec ''git diff'' cwd \<notin> set (fst (fetchDiff h cwd)))
   \<and> (\<forall>s u. execAsync h ''git diff --cached'' cwd = Inr s \<longrightarrow> trim (stdout s) = [] \<longrightarrow>
        execAsync h ''git diff'' cwd = Inr u \<longrightarrow> trim (stdout u) \<noteq> [] \<longrightarrow>
        fetchDiff h cwd =
          ([Exec ''git diff --cached'' cwd, Exec ''git diff'' cwd], Inr (stdout u, False)))
   \<and> (\<forall>s u. execAsync h ''git diff --cached'' cwd = Inr s \<longrightarrow> trim (stdout s) = [] \<longrightarrow>
        execAsync h ''git diff'' cwd = Inr u \<longrightarrow> trim (stdout u) = [] \<longrightarrow>
        fetchDiff h cwd =
          ([Exec ''git diff --cached'' cwd, Exec ''git diff'' cwd],
           Inl (Error ''No changes found (staged or unstaged)'')))"
  by (simp add: fetchDiff_staged fetchDiff_unstaged fetchDiff_none)

theorem fetchDiff_selects_witness:
  "fetchDiff (testHost (Inr defaultConfig) (Inr ''diff --git a/x b/x\<newline>+foo'') (Inr ''-bar'')
       (Inl (Error ''down''))) (Some ''/repo'')
     = ([Exec ''git diff --cached'' (Some ''/repo'')], Inr (''diff --git a/x b/x\<newline>+foo'', True))
   \<and> fetchDiff (testHost (Inr defaultConfig) (Inr '' \<newline>'') (Inr ''-bar\<newline>'')
       (Inl (Error ''down''))) None
     = ([Exec ''git diff --cached'' None, Exec ''git diff'' None], Inr (''-bar\<newline>'', False))
   \<and> fetchDiff (testHost (Inr defaultConfig) (Inr []) (Inr ''\<newline>'')
       (Inl (Error ''down''))) (Some ''/repo'')
     = ([Exec ''git diff --cached'' (Some ''/repo''), Exec ''git diff'' (Some ''/repo'')],
        Inl (Error ''No changes found (staged or unstaged)''))"
  using
    fetchDiff_selects [of "testHost (Inr defaultConfig) (Inr ''diff --git a/x b/x\<newline>+foo'')
      (Inr ''-bar'') (Inl (Error ''down''))" "Some ''/repo''"]
    fetchDiff_selects [of "testHost (Inr defaultConfig) (Inr '' \<newline>'') (Inr ''-bar\<newline>'')
      (Inl (Error ''down''))" None]
    fetchDiff_selects [of "testHost (Inr defaultConfig) (Inr []) (Inr ''\<newline>'')
      (Inl (Error ''down''))" "Some ''/repo''"]
  by (simp add: testHost_def trim_def isWhiteSpace_def)

section \<open>The user message\<close>

text \<open>
  C3. When the configuration is read and the diff is collected, the run sends one
  request whose single user message is the concatenation, in this order, of the
  instruction line naming \<open>staged files\<close> or \<open>changed files\<close>, a blank line, the
  header \<open>Git diff:\<close>, the diff text, a blank line, the format-rule block, the
  custom-rules block, and the two constraint lines. Its first line is the instruction
  line, and the diff text is a substring of it.
\<close>

theorem userMessage_order:
  assumes "getConfiguration h = Inr config"
    and "fetchDiff h (orPath rp (workspaceFolder h)) = (tr, Inr (diff, isStaged))"
  shows "\<exists>req msg.
    fst (generateCommitMessage h this rp) = tr @ [Create this req]
    \<and> messages req = [\<lparr>role = ''user'', content = msg\<rparr>]
    \<and> msg = concat
        [''write me a commit message for the '' @ (if isStaged then ''staged files'' else ''changed files'')
           @ '', do not commit\<newline>'',
         ''\<newline>'',
         ''Git diff:\<newline>'',
         diff,
         ''\<newline>\<newline>'',
         getFormatRules (orString (get_commitFormat config) ''conventional'')
           (orString (get_customTemplate config) []),
         customRulesText (orArray (get_customRules config) []),
         ''\<newline>- Do not wrap the response in code blocks or backticks'',
         ''\<newline>- Return plain text only'']
    \<and> firstLine msg = (if isStaged then ''write me a commit message for the staged files, do not commit''
         else ''write me a commit message for the changed files, do not commit'')
    \<and> sublist diff msg"
proof -
  let ?req = "buildRequest config diff isStaged"
  let ?msg = "userContent (if isStaged then ''staged files'' else ''changed files'') diff
         (getFormatRules (orString (get_commitFormat config) ''conventional'')
            (orString (get_customTemplate config) []))
         (customRulesText (orArray (get_customRules config) []))"
  have tr: "fst (generateCommitMessage h this rp) = tr @ [Create this ?req]"
    using generate_after_diff [OF assms] by simp
  have sub: "sublist diff ?msg"
    unfolding userContent_def by (metis sublist_appendI append.assoc)
  have fl: "firstLine ?msg = (if isStaged then ''write me a commit message for the staged files, do not commit''
         else ''write me a commit message for the changed files, do not commit'')"
    by (simp add: userContent_def firstLine_def)
  have cat: "?msg = concat
        [''write me a commit message for the '' @ (if isStaged then ''staged files'' else ''changed files'')
           @ '', do not commit\<newline>'',
         ''\<newline>'',
         ''Git diff:\<newline>'',
         diff,
         ''\<newline>\<newline>'',
         getFormatRules (orString (get_commitFormat config) ''conventional'')
           (orString (get_customTemplate config) []),
         customRulesText (orArray (get_customRules config) []),
         ''\<newline>- Do not wrap the response in code blocks or backticks'',
         ''\<newline>- Return plain text only'']"
    by (simp add: userContent_def)
  show ?thesis
    using tr buildRequest_messages [of config diff isStaged] sub fl cat by blast
qed

theorem userMessage_order_witness:
  "\<exists>req msg.
    fst (generateCommitMessage stagedHost (anthropicConfig defaultConfig) None) =
      [Exec ''git diff --cached'' (Some ''/repo''), Create (anthropicConfig defaultConfig) req]
    \<and> messages req = [\<lparr>role = ''user'', content = msg\<rparr>]
    \<and> msg = ''write me a commit message for the staged files, do not commit\<newline>\<newline>Git diff:\<newline>diff --git a/x b/x\<newline>+foo\<newline>\<newline>Rules:\<newline>- Use conventional commit format\<newline>- Keep under 72 characters for the first line\<newline>- Be specific and clear\<newline>- Common types: feat, fix, docs, style, refactor, test, chore\<newline>- Do not wrap the response in code blocks or backticks\<newline>- Return plain text only''
    \<and> firstLine msg = ''write me a commit message for the staged files, do not commit''
    \<and> sublist ''diff --git a/x b/x\<newline>+foo'' msg"
  using userMessage_order [OF stagedHost_config stagedHost_fetch, of "anthropicConfig defaultConfig"]
  by (simp add: defaultConfig_def orString_def orArray_def getFormatRules_def customRulesText_def)

text \<open>
  C8. The custom-rules block of an empty list is the empty string. That of a non-empty
  list is a blank line, the header line \<open>Additional custom rules:\<close> and one line
  \<open>- rule\<close> per rule, in input order, each line after a line feed. In the user
  message the block stands between the format-rule block and the constraint lines.
\<close>

theorem customRules_block:
  "customRulesText [] = []
   \<and> (rules \<noteq> [] \<longrightarrow>
        customRulesText rules =
          concat (map (\<lambda>l. ''\<newline>'' @ l)
            ([[], ''Additional custom rules:''] @ map (\<lambda>r. ''- '' @ r) rules)))
   \<and> (get_customRules config = Some rules \<or> get_customRules config = None \<and> rules = [] \<longrightarrow>
        (\<exists>pre. messages (buildRequest config diff isStaged) =
           [\<lparr>role = ''user'',
             content = pre
               @ getFormatRules (orString (get_commitFormat config) ''conventional'')
                   (orString (get_customTemplate config) [])
               @ customRulesText rules
               @ ''\<newline>- Do not wrap the response in code blocks or backticks\<newline>- Return plain text only''\<rparr>]))"
proof (intro conjI impI)
  show "customRulesText [] = []" by (simp add: customRulesText_def)
next
  assume "rules \<noteq> []"
  then show "customRulesText rules =
          concat (map (\<lambda>l. ''\<newline>'' @ l)
            ([[], ''Additional custom rules:''] @ map (\<lambda>r. ''- '' @ r) rules))"
    by (rule customRulesText_lines)
next
  assume "get_customRules config = Some rules \<or> get_customRules config = None \<and> rules = []"
  then have "orArray (get_customRules config) [] = rules" by (auto simp: orArray_def)
  then show "\<exists>pre. messages (buildRequest config diff isStaged) =
           [\<lparr>role = ''user'',
             content = pre
               @ getFormatRules (orString (get_commitFormat config) ''conventional'')
                   (orString (get_customTemplate config) [])
               @ customRulesText rules
               @ ''\<newline>- Do not wrap the response in code blocks or backticks\<newline>- Return plain text only''\<rparr>]"
    by (simp add: buildRequest_messages userContent_def)
qed

theorem customRules_block_witness:
  "customRulesText [''use present tense'', ''mention ticket id''] =
     ''\<newline>\<newline>Additional custom rules:\<newline>- use present tense\<newline>- mention ticket id''
   \<and> messages (buildRequest
         (defaultConfig\<lparr>get_customRules := Some [''use present tense'', ''mention ticket id'']\<rparr>)
         ''diff --git a/x b/x\<newline>+foo'' True) =
       [\<lparr>role = ''user'',
         content = ''write me a commit message for the staged files, do not commit\<newline>\<newline>Git diff:\<newline>diff --git a/x b/x\<newline>+foo\<newline>\<newline>Rules:\<newline>- Use conventional commit format\<newline>- Keep under 72 characters for the first line\<newline>- Be specific and clear\<newline>- Common types: feat, fix, docs, style, refactor, test, chore\<newline>\<newline>Additional custom rules:\<newline>- use present tense\<newline>- mention ticket id\<newline>- Do not wrap the response in code blocks or backticks\<newline>- Return plain text only''\<rparr>]"
proof -
  let ?rules = "[''use present tense'', ''mention ticket id'']"
  let ?config = "defaultConfig\<lparr>get_customRules := Some ?rules\<rparr>"
  note block = customRules_block [of ?rules ?config "''diff --git a/x b/x\<newline>+foo''" True]
  have a: "customRulesText ?rules =
     ''\<newline>\<newline>Additional custom rules:\<newline>- use present tense\<newline>- mention ticket id''"
    using block by simp
  have "get_customRules ?config = Some ?rules \<or> get_customRules ?config = None \<and> ?rules = []"
    by simp
  with block obtain pre where
    "messages (buildRequest ?config ''diff --git a/x b/x\<newline>+foo'' True) =
       [\<lparr>role = ''user'',
         content = pre
           @ getFormatRules (orString (get_commitFormat ?config) ''conventional'')
               (orString (get_customTemplate ?config) [])
           @ customRulesText ?rules
           @ ''\<newline>- Do not wrap the response in code blocks or backticks\<newline>- Return plain text only''\<rparr>]"
    by blast
  then have b: "messages (buildRequest ?config ''diff --git a/x b/x\<newline>+foo'' True) =
       [\<lparr>role = ''user'',
         content = ''write me a commit message for the staged files, do not commit\<newline>\<newline>Git diff:\<newline>diff --git a/x b/x\<newline>+foo\<newline>\<newline>Rules:\<newline>- Use conventional commit format\<newline>- Keep under 72 characters for the first line\<newline>- Be specific and clear\<newline>- Common types: feat, fix, docs, style, refactor, test, chore\<newline>\<newline>Additional custom rules:\<newline>- use present tense\<newline>- mention ticket id\<newline>- Do not wrap the response in code blocks or backticks\<newline>- Return plain text only''\<rparr>]"
    by (simp add: buildRequest_messages userContent_def a defaultConfig_def orString_def
        orArray_def getFormatRules_def)
  show ?thesis using a b by simp
qed

text \<open>
  C10. The diff text in the user message is the standard output of the chosen command
  as it was returned: \<open>trim\<close> is applied only in the tests for emptiness, so white
  space around a diff that is not blank reaches the prompt.
\<close>

theorem diff_passed_verbatim:
  "(\<forall>config s. getConfiguration h = Inr config \<longrightarrow>
      execAsync h ''git diff --cached'' (orPath rp (workspaceFolder h)) = Inr s \<longrightarrow>
      trim (stdout s) \<noteq> [] \<longrightarrow>
      (\<exists>req. fst (generateCommitMessage h this rp) =
          [Exec ''git diff --cached'' (orPath rp (workspaceFolder h)), Create this req]
        \<and> messages req =
          [\<lparr>role = ''user'',
            content = userContent ''staged files'' (stdout s)
              (getFormatRules (orString (get_commitFormat config) ''conventional'')
                 (orString (get_customTemplate config) []))
              (customRulesText (orArray (get_customRules config) []))\<rparr>]))
   \<and> (\<forall>config s u. getConfiguration h = Inr config \<longrightarrow>
      execAsync h ''git diff --cached'' (orPath rp (workspaceFolder h)) = Inr s \<longrightarrow>
      trim (stdout s) = [] \<longrightarrow>
      execAsync h ''git diff'' (orPath rp (workspaceFolder h)) = Inr u \<longrightarrow>
      trim (stdout u) \<noteq> [] \<longrightarrow>
      (\<exists>req. fst (generateCommitMessage h this rp) =
          [Exec ''git diff --cached'' (orPath rp (workspaceFolder h)),
           Exec ''git diff'' (orPath rp (workspaceFolder h)), Create this req]
        \<and> messages req =
          [\<lparr>role = ''user'',
            content = userContent ''changed files'' (stdout u)
              (getFormatRules (orString (get_commitFormat config) ''conventional'')
                 (orString (get_customTemplate config) []))
              (customRulesText (orArray (get_customRules config) []))\<rparr>]))
   \<and> userContent fileType diff formatRules rulesText =
       ''write me a commit message for the '' @ fileType @ '', do not commit\<newline>\<newline>Git diff:\<newline>''
       @ diff @ ''\<newline>\<newline>'' @ formatRules @ rulesText
       @ ''\<newline>- Do not wrap the response in code blocks or backticks\<newline>- Return plain text only''"
proof (intro conjI allI impI)
  fix config s
  assume c: "getConfiguration h = Inr config"
    and s: "execAsync h ''git diff --cached'' (orPath rp (workspaceFolder h)) = Inr s"
      "trim (stdout s) \<noteq> []"
  show "\<exists>req. fst (generateCommitMessage h this rp) =
          [Exec ''git diff --cached'' (orPath rp (workspaceFolder h)), Create this req]
        \<and> messages req =
          [\<lparr>role = ''user'',
            content = userContent ''staged files'' (stdout s)
              (getFormatRules (orString (get_commitFormat config) ''conventional'')
                 (orString (get_customTemplate config) []))
              (customRulesText (orArray (get_customRules config) []))\<rparr>]"
    using generate_after_diff [OF c fetchDiff_staged [OF s], of this]
      buildRequest_messages [of config "stdout s" True]
    by simp
next
  fix config s u
  assume c: "getConfiguration h = Inr config"
    and s: "execAsync h ''git diff --cached'' (orPath rp (workspaceFolder h)) = Inr s"
      "trim (stdout s) = []"
    and u: "execAsync h ''git diff'' (orPath rp (workspaceFolder h)) = Inr u"
      "trim (stdout u) \<noteq> []"
  show "\<exists>req. fst (generateCommitMessage h this rp) =
          [Exec ''git diff --cached'' (orPath rp (workspaceFolder h)),
           Exec ''git diff'' (orPath rp (workspaceFolder h)), Create this req]
        \<and> messages req =
          [\<lparr>role = ''user'',
            content = userContent ''changed files'' (stdout u)
              (getFormatRules (orString (get_commitFormat config) ''conventional'')
                 (orString (get_customTemplate config) []))
              (customRulesText (orArray (get_customRules config) []))\<rparr>]"
    using generate_after_diff [OF c fetchDiff_unstaged [OF s u], of this]
      buildRequest_messages [of config "stdout u" False]
    by simp
next
  show "userContent fileType diff formatRules rulesText =
       ''write me a commit message for the '' @ fileType @ '', do not commit\<newline>\<newline>Git diff:\<newline>''
       @ diff @ ''\<newline>\<newline>'' @ formatRules @ rulesText
       @ ''\<newline>- Do not wrap the response in code blocks or backticks\<newline>- Return plain text only''"
    by (simp add: userContent_def)
qed

theorem diff_passed_verbatim_witness:
  "trim ''\<newline>  diff --git a/x b/x\<newline>+foo\<newline>\<newline>'' = ''diff --git a/x b/x\<newline>+foo''
   \<and> (\<exists>req. fst (generateCommitMessage paddedHost (anthropicConfig defaultConfig) None) =
          [Exec ''git diff --cached'' (Some ''/repo''), Create (anthropicConfig defaultConfig) req]
        \<and> messages req =
          [\<lparr>role = ''user'',
            content = ''write me a commit message for the staged files, do not commit\<newline>\<newline>Git diff:\<newline>\<newline>  diff --git a/x b/x\<newline>+foo\<newline>\<newline>\<newline>\<newline>Rules:\<newline>- Use conventional commit format\<newline>- Keep under 72 characters for the first line\<newline>- Be specific and clear\<newline>- Common types: feat, fix, docs, style, refactor, test, chore\<newline>- Do not wrap the response in code blocks or backticks\<newline>- Return plain text only''\<rparr>])
   \<and> (\<exists>req. fst (generateCommitMessage paddedUnstagedHost (anthropicConfig defaultConfig) None) =
          [Exec ''git diff --cached'' (Some ''/repo''), Exec ''git diff'' (Some ''/repo''),
           Create (anthropicConfig defaultConfig) req]
        \<and> messages req =
          [\<lparr>role = ''user'',
            content = ''write me a commit message for the changed files, do not commit\<newline>\<newline>Git diff:\<newline> -bar\<newline>\<newline>\<newline>Rules:\<newline>- Use conventional commit format\<newline>- Keep under 72 characters for the first line\<newline>- Be specific and clear\<newline>- Common types: feat, fix, docs, style, refactor, test, chore\<newline>- Do not wrap the response in code blocks or backticks\<newline>- Return plain text only''\<rparr>])"
proof -
  let ?opts = "anthropicConfig defaultConfig"
  have t: "trim ''\<newline>  diff --git a/x b/x\<newline>+foo\<newline>\<newline>'' = ''diff --git a/x b/x\<newline>+foo''"
    by (simp add: trim_def isWhiteSpace_def)
  have "\<exists>req. fst (generateCommitMessage paddedHost ?opts None) =
          [Exec ''git diff --cached'' (orPath None (workspaceFolder paddedHost)), Create ?opts req]
        \<and> messages req =
          [\<lparr>role = ''user'',
            content = userContent ''staged files''
              (stdout \<lparr>stdout = ''\<newline>  diff --git a/x b/x\<newline>+foo\<newline>\<newline>'', stderr = []\<rparr>)
              (getFormatRules (orString (get_commitFormat defaultConfig) ''conventional'')
                 (orString (get_customTemplate defaultConfig) []))
              (customRulesText (orArray (get_customRules defaultConfig) []))\<rparr>]"
    by (rule diff_passed_verbatim [of paddedHost None ?opts, THEN conjunct1, rule_format])
      (simp_all add: paddedHost_def testHost_def orPath_def trim_def isWhiteSpace_def)
  then have a: "\<exists>req. fst (generateCommitMessage paddedHost ?opts None) =
          [Exec ''git diff --cached'' (Some ''/repo''), Create ?opts req]
        \<and> messages req =
          [\<lparr>role = ''user'',
            content = ''write me a commit message for the staged files, do not commit\<newline>\<newline>Git diff:\<newline>\<newline>  diff --git a/x b/x\<newline>+foo\<newline>\<newline>\<newline>\<newline>Rules:\<newline>- Use conventional commit format\<newline>- Keep under 72 characters for the first line\<newline>- Be specific and clear\<newline>- Common types: feat, fix, docs, style, refactor, test, chore\<newline>- Do not wrap the response in code blocks or backticks\<newline>- Return plain text only''\<rparr>]"
    by (simp add: paddedHost_def testHost_def orPath_def userContent_def defaultConfig_def
        orString_def orArray_def getFormatRules_def customRulesText_def)
  have "\<exists>req. fst (generateCommitMessage paddedUnstagedHost ?opts None) =
          [Exec ''git diff --cached'' (orPath None (workspaceFolder paddedUnstagedHost)),
           Exec ''git diff'' (orPath None (workspaceFolder paddedUnstagedHost)), Create ?opts req]
        \<and> messages req =
          [\<lparr>role = ''user'',
            content = userContent ''changed files''
              (stdout \<lparr>stdout = '' -bar\<newline>'', stderr = []\<rparr>)
              (getFormatRules (orString (get_commitFormat defaultConfig) ''conventional'')
                 (orString (get_customTemplate defaultConfig) []))
              (customRulesText (orArray (get_customRules defaultConfig) []))\<rparr>]"
    by (rule diff_passed_verbatim [of paddedUnstagedHost None ?opts, THEN conjunct2, THEN conjunct1,
          rule_format, of _ "\<lparr>stdout = '' \<newline>'', stderr = []\<rparr>"])
      (simp_all add: paddedUnstagedHost_def testHost_def orPath_def trim_def isWhiteSpace_def)
  then have b: "\<exists>req. fst (generateCommitMessage paddedUnstagedHost ?opts None) =
          [Exec ''git diff --cached'' (Some ''/repo''), Exec ''git diff'' (Some ''/repo''),
           Create ?opts req]
        \<and> messages req =
          [\<lparr>role = ''user'',
            content = ''write me a commit message for the changed files, do not commit\<newline>\<newline>Git diff:\<newline> -bar\<newline>\<newline>\<newline>Rules:\<newline>- Use conventional commit format\<newline>- Keep under 72 characters for the first line\<newline>- Be specific and clear\<newline>- Common types: feat, fix, docs, style, refactor, test, chore\<newline>- Do not wrap the response in code blocks or backticks\<newline>- Return plain text only''\<rparr>]"
    by (simp add: paddedUnstagedHost_def testHost_def orPath_def userContent_def defaultConfig_def
        orString_def orArray_def getFormatRules_def customRulesText_def)
  show ?thesis using t a b by blast
qed

section \<open>The response and the errors\<close>

text \<open>
  C7. When the request returns a response, the run returns a string and does not throw:
  the fixed string \<open>Unable to generate commit message\<close> when no content block has
  the type \<open>text\<close>, and otherwise the text of the first block of that type.
\<close>

theorem generate_extracts_text:
  assumes "getConfiguration h = Inr config"
    and "fetchDiff h (orPath rp (workspaceFolder h)) = (tr, Inr (diff, isStaged))"
    and "messages_create h this (buildRequest config diff isStaged) = Inr resp"
  shows "((\<forall>b\<in>set (resp_content resp). block_type b \<noteq> ''text'') \<longrightarrow>
           snd (generateCommitMessage h this rp) = Inr ''Unable to generate commit message'')
    \<and> (\<forall>pre b post. resp_content resp = pre @ b # post \<longrightarrow>
           (\<forall>x\<in>set pre. block_type x \<noteq> ''text'') \<longrightarrow> block_type b = ''text'' \<longrightarrow>
           snd (generateCommitMessage h this rp) = Inr (block_text b))"
proof -
  have "snd (generateCommitMessage h this rp) = Inr (extractText resp)"
    using generate_after_diff [OF assms(1,2), of this] assms(3) by simp
  then show ?thesis
    by (auto simp: extractText_none extractText_first)
qed

theorem generate_extracts_text_witness:
  "snd (generateCommitMessage toolOnlyHost (anthropicConfig defaultConfig) None) =
     Inr ''Unable to generate commit message''
   \<and> snd (generateCommitMessage stagedHost (anthropicConfig defaultConfig) None) =
     Inr ''feat: add foo''"
proof -
  have a: "snd (generateCommitMessage toolOnlyHost (anthropicConfig defaultConfig) None) =
     Inr ''Unable to generate commit message''"
    by (rule generate_extracts_text [OF toolOnlyHost_config toolOnlyHost_fetch toolOnlyHost_create,
          THEN conjunct1, rule_format])
      (simp add: toolOnlyResponse_def)
  have b: "snd (generateCommitMessage stagedHost (anthropicConfig defaultConfig) None) =
     Inr (block_text \<lparr>block_type = ''text'', block_text = ''feat: add foo''\<rparr>)"
    by (rule generate_extracts_text [OF stagedHost_config stagedHost_fetch stagedHost_create,
          THEN conjunct2, rule_format,
          of "[\<lparr>block_type = ''thinking'', block_text = ''hm''\<rparr>]" _
             "[\<lparr>block_type = ''text'', block_text = ''second''\<rparr>]"])
      (simp_all add: sampleResponse_def)
  show ?thesis using a b by simp
qed

text \<open>
  C4. Every error of a run is an error thrown by reading the configuration, by one of
  the two diff commands, by the test for changes, or by the completion request, and the
  run rejects with one error whose message is \<open>Failed to generate commit message: \<close>
  followed by the message of that error. When both diffs are blank the message
  contains \<open>No changes found\<close>.
\<close>

theorem generate_wraps_errors:
  "(\<forall>e. snd (generateCommitMessage h this rp) = Inl e \<longrightarrow>
      (\<exists>e0. e = Error (''Failed to generate commit message: '' @ message e0)
        \<and> (getConfiguration h = Inl e0
           \<or> execAsync h ''git diff --cached'' (orPath rp (workspaceFolder h)) = Inl e0
           \<or> execAsync h ''git diff'' (orPath rp (workspaceFolder h)) = Inl e0
           \<or> e0 = Error ''No changes found (staged or unstaged)''
           \<or> (\<exists>req. messages_create h this req = Inl e0))))
   \<and> (\<forall>e0. getConfiguration h = Inl e0 \<longrightarrow>
        snd (generateCommitMessage h this rp) =
          Inl (Error (''Failed to generate commit message: '' @ message e0)))
   \<and> (\<forall>config e0. getConfiguration h = Inr config \<longrightarrow>
        execAsync h ''git diff --cached'' (orPath rp (workspaceFolder h)) = Inl e0 \<longrightarrow>
        snd (generateCommitMessage h this rp) =
          Inl (Error (''Failed to generate commit message: '' @ message e0)))
   \<and> (\<forall>config s e0. getConfiguration h = Inr config \<longrightarrow>
        execAsync h ''git diff --cached'' (orPath rp (workspaceFolder h)) = Inr s \<longrightarrow>
        trim (stdout s) = [] \<longrightarrow>
        execAsync h ''git diff'' (orPath rp (workspaceFolder h)) = Inl e0 \<longrightarrow>
        snd (generateCommitMessage h this rp) =
          Inl (Error (''Failed to generate commit message: '' @ message e0)))
   \<and> (\<forall>config s u. getConfiguration h = Inr config \<longrightarrow>
        execAsync h ''git diff --cached'' (orPath rp (workspaceFolder h)) = Inr s \<longrightarrow>
        trim (stdout s) = [] \<longrightarrow>
        execAsync h ''git diff'' (orPath rp (workspaceFolder h)) = Inr u \<longrightarrow>
        trim (stdout u) = [] \<longrightarrow>
        (\<exists>e. snd (generateCommitMessage h this rp) = Inl e
          \<and> message e = ''Failed to generate commit message: No changes found (staged or unstaged)''
          \<and> sublist ''No changes found'' (message e)))
   \<and> (\<forall>config tr diff isStaged e0. getConfiguration h = Inr config \<longrightarrow>
        fetchDiff h (orPath rp (workspaceFolder h)) = (tr, Inr (diff, isStaged)) \<longrightarrow>
        messages_create h this (buildRequest config diff isStaged) = Inl e0 \<longrightarrow>
        snd (generateCommitMessage h this rp) =
          Inl (Error (''Failed to generate commit message: '' @ message e0)))"
proof (intro conjI allI impI)
  fix e assume "snd (generateCommitMessage h this rp) = Inl e"
  then show "\<exists>e0. e = Error (''Failed to generate commit message: '' @ message e0)
        \<and> (getConfiguration h = Inl e0
           \<or> execAsync h ''git diff --cached'' (orPath rp (workspaceFolder h)) = Inl e0
           \<or> execAsync h ''git diff'' (orPath rp (workspaceFolder h)) = Inl e0
           \<or> e0 = Error ''No changes found (staged or unstaged)''
           \<or> (\<exists>req. messages_create h this req = Inl e0))"
    by (rule generate_error_cases)
next
  fix e0 assume "getConfiguration h = Inl e0"
  then show "snd (generateCommitMessage h this rp) =
          Inl (Error (''Failed to generate commit message: '' @ message e0))"
    by (simp add: generate_config_fails)
next
  fix config e0
  assume "getConfiguration h = Inr config"
    and "execAsync h ''git diff --cached'' (orPath rp (workspaceFolder h)) = Inl e0"
  then show "snd (generateCommitMessage h this rp) =
          Inl (Error (''Failed to generate commit message: '' @ message e0))"
    by (simp add: generate_diff_fails [OF _ fetchDiff_staged_fails])
next
  fix config s e0
  assume "getConfiguration h = Inr config"
    and "execAsync h ''git diff --cached'' (orPath rp (workspaceFolder h)) = Inr s"
    and "trim (stdout s) = []"
    and "execAsync h ''git diff'' (orPath rp (workspaceFolder h)) = Inl e0"
  then show "snd (generateCommitMessage h this rp) =
          Inl (Error (''Failed to generate commit message: '' @ message e0))"
    by (simp add: generate_diff_fails [OF _ fetchDiff_unstaged_fails])
next
  fix config s u
  assume "getConfiguration h = Inr config"
    and "execAsync h ''git diff --cached'' (orPath rp (workspaceFolder h)) = Inr s"
    and "trim (stdout s) = []"
    and "execAsync h ''git diff'' (orPath rp (workspaceFolder h)) = Inr u"
    and "trim (stdout u) = []"
  then have "snd (generateCommitMessage h this rp) =
      Inl (Error (''Failed to generate commit message: '' @
        message (Error ''No changes found (staged or unstaged)'')))"
    by (simp add: generate_diff_fails [OF _ fetchDiff_none])
  moreover have "sublist ''No changes found''
      (''Failed to generate commit message: '' @ ''No changes found'' @ '' (staged or unstaged)'')"
    by (rule sublist_appendI)
  ultimately show "\<exists>e. snd (generateCommitMessage h this rp) = Inl e
          \<and> message e = ''Failed to generate commit message: No changes found (staged or unstaged)''
          \<and> sublist ''No changes found'' (message e)"
    by simp
next
  fix config tr diff isStaged e0
  assume "getConfiguration h = Inr config"
    and "fetchDiff h (orPath rp (workspaceFolder h)) = (tr, Inr (diff, isStaged))"
    and "messages_create h this (buildRequest config diff isStaged) = Inl e0"
  then show "snd (generateCommitMessage h this rp) =
          Inl (Error (''Failed to generate commit message: '' @ message e0))"
    by (rule generate_api_fails)
qed

theorem generate_wraps_errors_witness:
  "snd (generateCommitMessage (testHost (Inr defaultConfig) (Inr []) (Inr ''\<newline>'') (Inr sampleResponse))
         (anthropicConfig defaultConfig) None) =
     Inl (Error ''Failed to generate commit message: No changes found (staged or unstaged)'')
   \<and> snd (generateCommitMessage (testHost (Inl (Error ''settings unavailable'')) (Inr ''+foo'') (Inr []) (Inr sampleResponse))
         (anthropicConfig defaultConfig) None) =
     Inl (Error ''Failed to generate commit message: settings unavailable'')
   \<and> snd (generateCommitMessage (testHost (Inr defaultConfig) (Inl (Error ''Command failed: git diff --cached'')) (Inr []) (Inr sampleResponse))
         (anthropicConfig defaultConfig) None) =
     Inl (Error ''Failed to generate commit message: Command failed: git diff --cached'')
   \<and> snd (generateCommitMessage (testHost (Inr defaultConfig) (Inr '' '') (Inl (Error ''Command failed: git diff'')) (Inr sampleResponse))
         (anthropicConfig defaultConfig) None) =
     Inl (Error ''Failed to generate commit message: Command failed: git diff'')
   \<and> snd (generateCommitMessage (testHost (Inr defaultConfig) (Inr ''+foo'') (Inr []) (Inl (Error ''401 unauthorized'')))
         (anthropicConfig defaultConfig) None) =
     Inl (Error ''Failed to generate commit message: 401 unauthorized'')"
proof -
  let ?opts = "anthropicConfig defaultConfig"
  let ?clean = "testHost (Inr defaultConfig) (Inr []) (Inr ''\<newline>'') (Inr sampleResponse)"
  let ?nocfg = "testHost (Inl (Error ''settings unavailable'')) (Inr ''+foo'') (Inr []) (Inr sampleResponse)"
  let ?nogit = "testHost (Inr defaultConfig) (Inl (Error ''Command failed: git diff --cached'')) (Inr []) (Inr sampleResponse)"
  let ?nogit2 = "testHost (Inr defaultConfig) (Inr '' '') (Inl (Error ''Command failed: git diff'')) (Inr sampleResponse)"
  let ?noapi = "testHost (Inr defaultConfig) (Inr ''+foo'') (Inr []) (Inl (Error ''401 unauthorized''))"
  have "\<exists>e. snd (generateCommitMessage ?clean ?opts None) = Inl e
      \<and> message e = ''Failed to generate commit message: No changes found (staged or unstaged)''
      \<and> sublist ''No changes found'' (message e)"
    by (rule generate_wraps_errors [of ?clean ?opts None, THEN conjunct2, THEN conjunct2,
          THEN conjunct2, THEN conjunct2, THEN conjunct1, rule_format,
          of defaultConfig "\<lparr>stdout = [], stderr = []\<rparr>" "\<lparr>stdout = ''\<newline>'', stderr = []\<rparr>"])
      (simp_all add: testHost_def orPath_def trim_def isWhiteSpace_def)
  then obtain e where e: "snd (generateCommitMessage ?clean ?opts None) = Inl e"
    "message e = ''Failed to generate commit message: No changes found (staged or unstaged)''"
    by blast
  from e(2) have "e = Error ''Failed to generate commit message: No changes found (staged or unstaged)''"
    by (cases e) simp
  with e(1) have a: "snd (generateCommitMessage ?clean ?opts None) =
     Inl (Error ''Failed to generate commit message: No changes found (staged or unstaged)'')"
    by simp
  from a generate_wraps_errors [of ?clean ?opts None, THEN conjunct1, rule_format]
  have "\<exists>e0. Error ''Failed to generate commit message: No changes found (staged or unstaged)'' =
      Error (''Failed to generate commit message: '' @ message e0)"
    by blast
  have b: "snd (generateCommitMessage ?nocfg ?opts None) =
     Inl (Error (''Failed to generate commit message: '' @ message (Error ''settings unavailable'')))"
    by (rule generate_wraps_errors [of ?nocfg ?opts None, THEN conjunct2, THEN conjunct1, rule_format])
      (simp add: testHost_def)
  have c: "snd (generateCommitMessage ?nogit ?opts None) =
     Inl (Error (''Failed to generate commit message: '' @ message (Error ''Command failed: git diff --cached'')))"
    by (rule generate_wraps_errors [of ?nogit ?opts None, THEN conjunct2, THEN conjunct2,
          THEN conjunct1, rule_format, of defaultConfig])
      (simp_all add: testHost_def)
  have d: "snd (generateCommitMessage ?nogit2 ?opts None) =
     Inl (Error (''Failed to generate commit message: '' @ message (Error ''Command failed: git diff'')))"
    by (rule generate_wraps_errors [of ?nogit2 ?opts None, THEN conjunct2, THEN conjunct2,
          THEN conjunct2, THEN conjunct1, rule_format, of defaultConfig "\<lparr>stdout = '' '', stderr = []\<rparr>"])
      (simp_all add: testHost_def orPath_def trim_def isWhiteSpace_def)
  have f: "snd (generateCommitMessage ?noapi ?opts None) =
     Inl (Error (''Failed to generate commit message: '' @ message (Error ''401 unauthorized'')))"
    by (rule generate_wraps_errors [of ?noapi ?opts None, THEN conjunct2, THEN conjunct2,
          THEN conjunct2, THEN conjunct2, THEN conjunct2, rule_format,
          of defaultConfig "[Exec ''git diff --cached'' (Some ''/repo'')]" "''+foo''" True])
      (simp_all add: testHost_def orPath_def fetchDiff_def trim_def isWhiteSpace_def)
  show ?thesis using a b c d f by simp
qed

section \<open>Configuration defaults\<close>

text \<open>
  C9. Defaults replace falsy configured values as they replace absent ones: the empty
  model name gives \<open>claude-4-sonnet\<close>, a token budget of zero gives 200, empty custom
  rules, commit format and custom template give the request of their defaults, and an
  empty \<open>baseUrl\<close> or \<open>authToken\<close> is left out of the client options.
\<close>

theorem falsy_values_take_defaults:
  "req_model (buildRequest (config\<lparr>get_model := Some []\<rparr>) diff isStaged) = ''claude-4-sonnet''
   \<and> req_model (buildRequest (config\<lparr>get_model := None\<rparr>) diff isStaged) = ''claude-4-sonnet''
   \<and> max_tokens (buildRequest (config\<lparr>get_maxTokens := Some 0\<rparr>) diff isStaged) = 200
   \<and> max_tokens (buildRequest (config\<lparr>get_maxTokens := None\<rparr>) diff isStaged) = 200
   \<and> buildRequest (config\<lparr>get_customRules := Some []\<rparr>) diff isStaged =
       buildRequest (config\<lparr>get_customRules := None\<rparr>) diff isStaged
   \<and> buildRequest (config\<lparr>get_commitFormat := Some []\<rparr>) diff isStaged =
       buildRequest (config\<lparr>get_commitFormat := Some ''conventional''\<rparr>) diff isStaged
   \<and> buildRequest (config\<lparr>get_commitFormat := None\<rparr>) diff isStaged =
       buildRequest (config\<lparr>get_commitFormat := Some ''conventional''\<rparr>) diff isStaged
   \<and> buildRequest (config\<lparr>get_customTemplate := Some []\<rparr>) diff isStaged =
       buildRequest (config\<lparr>get_customTemplate := None\<rparr>) diff isStaged
   \<and> messages (buildRequest
         (config\<lparr>get_customRules := Some [], get_commitFormat := Some [], get_customTemplate := Some []\<rparr>)
         diff isStaged) =
       [\<lparr>role = ''user'',
         content = userContent (if isStaged then ''staged files'' else ''changed files'') diff
           (getFormatRules ''conventional'' []) []\<rparr>]
   \<and> opt_baseURL (anthropicConfig (config\<lparr>get_baseUrl := Some []\<rparr>)) = None
   \<and> opt_authToken (anthropicConfig (config\<lparr>get_authToken := Some []\<rparr>)) = None
   \<and> anthropicConfig (config\<lparr>get_baseUrl := Some [], get_authToken := Some []\<rparr>) =
       anthropicConfig (config\<lparr>get_baseUrl := None, get_authToken := None\<rparr>)"
  by (simp add: buildRequest_def Let_def orString_def orNumber_def orArray_def anthropicConfig_def
      truthyString_def customRulesText_def)

section \<open>The format rules\<close>

text \<open>
  C6. The Angular rule block is a constant: for every two custom templates
  \<open>getFormatRules\<close> returns the same string for the format \<open>angular\<close>. The function
  is a function of its two arguments alone.
\<close>

theorem getFormatRules_angular_const:
  "getFormatRules ''angular'' t1 = getFormatRules ''angular'' t2"
  by (simp add: getFormatRules_def)

text \<open>
  C2 as stated: \<open>getFormatRules\<close> returns the same string for the format \<open>custom\<close>
  with an empty template as for the format \<open>conventional\<close>. It does not.
\<close>

theorem custom_equals_conventional_counterexample:
  "getFormatRules ''custom'' [] \<noteq> getFormatRules ''conventional'' []"
  by (simp add: getFormatRules_def)

text \<open>
  C2, amended. With an empty template the format \<open>custom\<close> yields the first three
  rules of the conventional block, without its last line: the conventional block is
  that string followed by the line of the common types.
\<close>

theorem getFormatRules_custom_empty:
  "getFormatRules ''custom'' [] =
     ''Rules:\<newline>- Use conventional commit format\<newline>- Keep under 72 characters for the first line\<newline>- Be specific and clear''
   \<and> getFormatRules ''conventional'' [] =
     getFormatRules ''custom'' [] @ ''\<newline>- Common types: feat, fix, docs, style, refactor, test, chore''"
  by (simp add: getFormatRules_def)

text \<open>
  C5. For every format outside \<open>conventional\<close>, \<open>angular\<close> and \<open>custom\<close> and every
  template, \<open>getFormatRules\<close> returns what it returns for \<open>conventional\<close>: the
  default branch yields the conventional block, and a string in every case.
\<close>

theorem getFormatRules_default:
  "x \<notin> {''conventional'', ''angular'', ''custom''} \<Longrightarrow>
   getFormatRules x t = getFormatRules ''conventional'' t"
  by (simp add: getFormatRules_def)

theorem getFormatRules_default_witness:
  "''gitmoji'' \<notin> {''conventional'', ''angular'', ''custom''}
   \<and> getFormatRules ''gitmoji'' ''T'' = getFormatRules ''conventional'' ''T''"
  using getFormatRules_default [of "''gitmoji''" "''T''"] by simp

end
